theory Spec2Isabelle
  imports Complex_Main "HOL-Library.Char_ord" "HOL-Library.List_Lexorder" "HOL-Library.Multiset"
begin

section \<open>Data model\<close>

text \<open>
  The dashboard script \<^verbatim>\<open>elias_week10.py\<close> keeps its data in pandas frames. A cell
  of a frame is a Python string, a number, or the null marker (\<^verbatim>\<open>NaN\<close> / \<^verbatim>\<open>None\<close>,
  what \<^verbatim>\<open>isnull()\<close> answers True for). Costs are exact rationals here: the
  rounding of the float64 additions is not part of this model.
\<close>

datatype cell = Str string | Num rat | Null

type_synonym row = "cell list"

text \<open>
  A frame has its column labels in order and its rows in order, each row holding one cell
  per column. Column labels are looked up by name, as the script does throughout.
\<close>

record dataframe =
  columns :: "string list"
  rows :: "row list"

text \<open>The exceptions the script can raise, and the halt of the schema check.\<close>

datatype error =
    IndexError
  | KeyError string
  | TypeError
  | ZeroDivisionError
  | SchemaError "string list"

definition rectangular :: "dataframe \<Rightarrow> bool" where
  "rectangular df = list_all (\<lambda>r. length r = length (columns df)) (rows df)"

subsection \<open>Column access\<close>

fun index_of :: "'a \<Rightarrow> 'a list \<Rightarrow> nat option" where
  "index_of x [] = None"
| "index_of x (y # ys) =
     (if x = y then Some 0 else map_option Suc (index_of x ys))"

definition cell_at :: "row \<Rightarrow> nat \<Rightarrow> cell" where
  "cell_at r i = (if i < length r then r ! i else Null)"

text \<open>
  \<^verbatim>\<open>df[name]\<close> on one row. The script reads a column only after the schema check has
  found every required label (or after it has assigned the column itself), so the
  \<^verbatim>\<open>KeyError\<close> of a missing label is raised by \<open>check_columns\<close> below and
  not here; a frame whose labels are pairwise distinct has one column per label.
\<close>

definition get :: "string list \<Rightarrow> string \<Rightarrow> row \<Rightarrow> cell" where
  "get cols name r = (case index_of name cols of None \<Rightarrow> Null | Some i \<Rightarrow> cell_at r i)"

text \<open>
  \<^verbatim>\<open>df[[n1, n2, ...]]\<close>: the positions of the columns carrying each requested label,
  in the order requested; a label that occurs twice in the frame is selected twice.
\<close>

definition positions :: "string list \<Rightarrow> string \<Rightarrow> nat list" where
  "positions cols name = filter (\<lambda>i. cols ! i = name) [0..<length cols]"

definition select_columns :: "string list \<Rightarrow> dataframe \<Rightarrow> dataframe" where
  "select_columns names df =
     (let idx = concat (map (positions (columns df)) names)
      in \<lparr>columns = map (\<lambda>i. columns df ! i) idx,
          rows = map (\<lambda>r. map (cell_at r) idx) (rows df)\<rparr>)"

definition isnull :: "cell \<Rightarrow> bool" where
  "isnull c = (c = Null)"

definition notna :: "cell \<Rightarrow> bool" where
  "notna c = (c \<noteq> Null)"

section \<open>Loading the data\<close>

text \<open>
  \<^verbatim>\<open>str.strip()\<close> removes leading and trailing whitespace. Of the ASCII characters
  these are tab, line feed, vertical tab, form feed, carriage return, the four
  separators 0x1C..0x1F and the space; the spaces of Unicode beyond ASCII are left to the
  text they are in.
\<close>

definition isspace :: "char \<Rightarrow> bool" where
  "isspace c = (c \<in> set [CHR 0x09, CHR 0x0A, CHR 0x0B, CHR 0x0C, CHR 0x0D,
                            CHR 0x1C, CHR 0x1D, CHR 0x1E, CHR 0x1F, CHR 0x20])"

definition strip :: "string \<Rightarrow> string" where
  "strip s = rev (dropWhile isspace (rev (dropWhile isspace s)))"

text \<open>\<^verbatim>\<open>s.replace('"', '')\<close>: every double quote (0x22) is deleted.\<close>

definition remove_quotes :: "string \<Rightarrow> string" where
  "remove_quotes s = filter (\<lambda>c. c \<noteq> CHR 0x22) s"

text \<open>\<^verbatim>\<open>s.split(',')\<close>: always at least one field, the empty text gives one empty field.\<close>

fun split_on :: "char \<Rightarrow> string \<Rightarrow> string list" where
  "split_on d [] = [[]]"
| "split_on d (c # cs) =
     (if c = d then [] # split_on d cs
      else (case split_on d cs of
              [] \<Rightarrow> [[c]]
            | f # fs \<Rightarrow> (c # f) # fs))"

text \<open>
  The two lines of the row loop that turn a line into its fields:
  \<^verbatim>\<open>clean_line = line.strip().replace('"', '')\<close> and
  \<^verbatim>\<open>values = [v.strip() for v in clean_line.split(',')]\<close>. The header is parsed by
  the same two steps.
\<close>

definition parse_fields :: "string \<Rightarrow> string list" where
  "parse_fields line = map strip (split_on (CHR 0x2C) (remove_quotes (strip line)))"

text \<open>
  The row loop over \<^verbatim>\<open>lines[1:]\<close>: a line that is empty after stripping is skipped,
  a line whose field count is the header's is appended to \<^verbatim>\<open>data_rows\<close>, any other
  line is passed over.
\<close>

fun data_rows :: "string list \<Rightarrow> string list \<Rightarrow> string list list" where
  "data_rows headers [] = []"
| "data_rows headers (line # lines) =
     (if strip line \<noteq> [] then
        (let vals = parse_fields line
         in if length vals = length headers
            then vals # data_rows headers lines
            else data_rows headers lines)
      else data_rows headers lines)"

text \<open>
  \<^verbatim>\<open>pd.to_numeric(..., errors='coerce')\<close> is library code: its reading of one text
  as a number is the parameter \<open>to_numeric\<close>, \<open>None\<close> where the text is no number;
  such a cell becomes null.
\<close>

definition coerce :: "(string \<Rightarrow> rat option) \<Rightarrow> cell \<Rightarrow> cell" where
  "coerce to_numeric c =
     (case c of
        Str s \<Rightarrow> (case to_numeric s of None \<Rightarrow> Null | Some q \<Rightarrow> Num q)
      | _ \<Rightarrow> c)"

definition coerce_row :: "(string \<Rightarrow> rat option) \<Rightarrow> nat \<Rightarrow> row \<Rightarrow> row" where
  "coerce_row to_numeric i r = (if i < length r then r[i := coerce to_numeric (r ! i)] else r)"

text \<open>
  \<open>load_data\<close> takes the result of \<^verbatim>\<open>f.readlines()\<close>. \<^verbatim>\<open>lines[0]\<close> of an empty
  file raises \<^verbatim>\<open>IndexError\<close>; \<^verbatim>\<open>df['MonthlyCostUSD']\<close> raises \<^verbatim>\<open>KeyError\<close> when the
  header has no such label, and is a frame, which \<^verbatim>\<open>pd.to_numeric\<close> refuses with
  \<^verbatim>\<open>TypeError\<close>, when the header has it more than once. The final
  \<^verbatim>\<open>reset_index(drop=True)\<close> renumbers the rows and changes no cell.
\<close>

definition load_data :: "(string \<Rightarrow> rat option) \<Rightarrow> string list \<Rightarrow> error + dataframe" where
  "load_data to_numeric lines =
     (case lines of
        [] \<Rightarrow> Inl IndexError
      | header_line # rest \<Rightarrow>
          (let headers = parse_fields header_line;
               body = map (map Str) (data_rows headers rest)
           in case positions headers ''MonthlyCostUSD'' of
                [] \<Rightarrow> Inl (KeyError ''MonthlyCostUSD'')
              | [i] \<Rightarrow> Inr \<lparr>columns = headers, rows = map (coerce_row to_numeric i) body\<rparr>
              | _ \<Rightarrow> Inl TypeError))"

text \<open>
  What the load leaves in a row: one cell per column, and a text in every cell that is
  not under \<^verbatim>\<open>MonthlyCostUSD\<close>.
\<close>

definition text_cell :: "cell \<Rightarrow> bool" where
  "text_cell c = (case c of Str s \<Rightarrow> True | _ \<Rightarrow> False)"

definition text_row :: "string list \<Rightarrow> row \<Rightarrow> bool" where
  "text_row cols r =
     (length r = length cols \<and>
      list_all (\<lambda>(n, c). n = ''MonthlyCostUSD'' \<or> text_cell c) (zip cols r))"

section \<open>Schema check and filters\<close>

definition required_cols :: "string list" where
  "required_cols = [''AccountID'', ''ResourceID'', ''Service'', ''Region'', ''Department'',
     ''Project'', ''Environment'', ''Owner'', ''CostCenter'', ''CreatedBy'',
     ''MonthlyCostUSD'', ''Tagged'']"

definition missing_cols :: "dataframe \<Rightarrow> string list" where
  "missing_cols df = filter (\<lambda>c. c \<notin> set (columns df)) required_cols"

definition check_columns :: "dataframe \<Rightarrow> error + dataframe" where
  "check_columns df = (if missing_cols df \<noteq> [] then Inl (SchemaError (missing_cols df)) else Inr df)"

text \<open>
  \<^verbatim>\<open>df[df[name].isin(selected)]\<close>: the rows whose cell under \<open>name\<close> is one of the
  selected texts, in their order; a null cell is in no selection.
\<close>

definition isin :: "cell \<Rightarrow> string list \<Rightarrow> bool" where
  "isin c selected = (case c of Str s \<Rightarrow> s \<in> set selected | _ \<Rightarrow> False)"

definition filter_isin :: "string \<Rightarrow> string list \<Rightarrow> dataframe \<Rightarrow> dataframe" where
  "filter_isin name selected df =
     df\<lparr>rows := filter (\<lambda>r. isin (get (columns df) name r) selected) (rows df)\<rparr>"

text \<open>The four \<^verbatim>\<open>if 'All' not in selected_...\<close> statements, in the script's order.\<close>

definition apply_filters ::
  "dataframe \<Rightarrow> string list \<Rightarrow> string list \<Rightarrow> string list \<Rightarrow> string list \<Rightarrow> dataframe" where
  "apply_filters df selected_dept selected_service selected_region selected_env =
     (let f1 = (if ''All'' \<notin> set selected_dept
                then filter_isin ''Department'' selected_dept df else df);
          f2 = (if ''All'' \<notin> set selected_service
                then filter_isin ''Service'' selected_service f1 else f1);
          f3 = (if ''All'' \<notin> set selected_region
                then filter_isin ''Region'' selected_region f2 else f2);
          f4 = (if ''All'' \<notin> set selected_env
                then filter_isin ''Environment'' selected_env f3 else f3)
      in f4)"

section \<open>Aggregations over the filtered view\<close>

definition len :: "dataframe \<Rightarrow> nat" where
  "len df = length (rows df)"

text \<open>\<^verbatim>\<open>df[df[name] == v]\<close>: the rows whose cell under \<open>name\<close> is the text \<open>v\<close>.\<close>

definition where_eq :: "string \<Rightarrow> string \<Rightarrow> dataframe \<Rightarrow> dataframe" where
  "where_eq name v df = df\<lparr>rows := filter (\<lambda>r. get (columns df) name r = Str v) (rows df)\<rparr>"

text \<open>
  Python's \<^verbatim>\<open>a / b\<close> on two \<^verbatim>\<open>int\<close>s raises \<^verbatim>\<open>ZeroDivisionError\<close> when
  \<open>b\<close> is zero.
\<close>

definition true_div :: "rat \<Rightarrow> rat \<Rightarrow> error + rat" where
  "true_div a b = (if b = 0 then Inl ZeroDivisionError else Inr (a / b))"

definition times100 :: "error + rat \<Rightarrow> error + rat" where
  "times100 x = (case x of Inl e \<Rightarrow> Inl e | Inr q \<Rightarrow> Inr (q * 100))"

subsection \<open>Task 1.4 and Task 1.5: counts and percentages\<close>

definition tagged_count :: "dataframe \<Rightarrow> nat" where
  "tagged_count filtered_df = len (where_eq ''Tagged'' ''Yes'' filtered_df)"

definition untagged_count :: "dataframe \<Rightarrow> nat" where
  "untagged_count filtered_df = len (where_eq ''Tagged'' ''No'' filtered_df)"

text \<open>
  The metric of Task 1.4 is \<^verbatim>\<open>tagged_count/len(filtered_df)*100\<close>, written without
  a test of the length.
\<close>

definition tagged_pct_metric :: "dataframe \<Rightarrow> error + rat" where
  "tagged_pct_metric filtered_df =
     times100 (true_div (of_nat (tagged_count filtered_df)) (of_nat (len filtered_df)))"

text \<open>
  Task 1.5:
  \<^verbatim>\<open>(untagged_count / len(filtered_df) * 100) if len(filtered_df) > 0 else 0\<close>.
\<close>

definition untagged_pct :: "dataframe \<Rightarrow> error + rat" where
  "untagged_pct filtered_df =
     (if len filtered_df > 0
      then times100 (true_div (of_nat (untagged_count filtered_df)) (of_nat (len filtered_df)))
      else Inr 0)"

subsection \<open>Task 2.1 and Task 2.2: cost rollup\<close>

text \<open>\<^verbatim>\<open>Series.sum()\<close> skips nulls; the sum of no values is 0.\<close>

definition cost_of :: "cell \<Rightarrow> rat" where
  "cost_of c = (case c of Num q \<Rightarrow> q | _ \<Rightarrow> 0)"

definition sum_cost :: "dataframe \<Rightarrow> rat" where
  "sum_cost df = sum_list (map (\<lambda>r. cost_of (get (columns df) ''MonthlyCostUSD'' r)) (rows df))"

definition total_cost :: "dataframe \<Rightarrow> rat" where
  "total_cost filtered_df = sum_cost filtered_df"

definition tagged_cost :: "dataframe \<Rightarrow> rat" where
  "tagged_cost filtered_df = sum_cost (where_eq ''Tagged'' ''Yes'' filtered_df)"

definition untagged_cost :: "dataframe \<Rightarrow> rat" where
  "untagged_cost filtered_df = sum_cost (where_eq ''Tagged'' ''No'' filtered_df)"

text \<open>
  Task 2.2: \<^verbatim>\<open>(untagged_cost / total_cost * 100) if total_cost > 0 else 0\<close>. The
  division is reached with a positive total only.
\<close>

definition untagged_cost_pct :: "dataframe \<Rightarrow> error + rat" where
  "untagged_cost_pct filtered_df =
     (if total_cost filtered_df > 0
      then times100 (true_div (untagged_cost filtered_df) (total_cost filtered_df))
      else Inr 0)"

text \<open>The \<^verbatim>\<open>:.2f\<close> of the metric labels: the value to the nearest hundredth.\<close>

definition fmt2 :: "rat \<Rightarrow> rat" where
  "fmt2 q = of_int (round (q * 100)) / 100"

subsection \<open>Group-by-sum\<close>

text \<open>
  \<^verbatim>\<open>df.groupby(name)\<close> has one group per distinct key, lists the groups in ascending
  order of the key (\<^verbatim>\<open>sort=True\<close>) and leaves out the rows whose key is null
  (\<^verbatim>\<open>dropna=True\<close>). The grouping columns of the script are text columns; texts
  compare as Python compares them, character by character.
\<close>

definition key_of :: "cell \<Rightarrow> string list" where
  "key_of c = (case c of Str s \<Rightarrow> [s] | _ \<Rightarrow> [])"

definition group_keys :: "string \<Rightarrow> dataframe \<Rightarrow> string list" where
  "group_keys name df =
     sort (remdups (concat (map (\<lambda>r. key_of (get (columns df) name r)) (rows df))))"

text \<open>\<^verbatim>\<open>df.groupby(name)['MonthlyCostUSD'].sum().reset_index()\<close>\<close>

definition groupby_sum :: "string \<Rightarrow> dataframe \<Rightarrow> (string \<times> rat) list" where
  "groupby_sum name df = map (\<lambda>k. (k, sum_cost (where_eq name k df))) (group_keys name df)"

text \<open>
  \<^verbatim>\<open>sort_values('MonthlyCostUSD', ascending=False)\<close>: descending by the sum. Rows
  with equal sums are kept in the order they had, which is what the default sort does on
  the short tables of a group-by (an insertion sort below seventeen rows). Of the
  theorems on the claims, only the two-row example of equal sums uses the order of equal
  sums.
\<close>

definition sort_values_desc :: "(string \<times> rat) list \<Rightarrow> (string \<times> rat) list" where
  "sort_values_desc t = sort_key (\<lambda>p. - snd p) t"

text \<open>Task 2.3, lines 266-267.\<close>

definition dept_untagged :: "dataframe \<Rightarrow> (string \<times> rat) list" where
  "dept_untagged filtered_df =
     sort_values_desc (groupby_sum ''Department'' (where_eq ''Tagged'' ''No'' filtered_df))"

text \<open>Task 2.4, lines 290-291.\<close>

definition project_cost :: "dataframe \<Rightarrow> (string \<times> rat) list" where
  "project_cost filtered_df = sort_values_desc (groupby_sum ''Project'' filtered_df)"

text \<open>Task 4.4, line 497.\<close>

definition env_cost :: "dataframe \<Rightarrow> (string \<times> rat) list" where
  "env_cost filtered_df = groupby_sum ''Environment'' filtered_df"


text \<open>
  The answer line of Task 2.3 and Task 2.4: \<^verbatim>\<open>iloc[0]\<close> under
  \<^verbatim>\<open>if len(...) > 0\<close>, else no answer.
\<close>

definition top_row :: "(string \<times> rat) list \<Rightarrow> (string \<times> rat) option" where
  "top_row t = (case t of [] \<Rightarrow> None | p # _ \<Rightarrow> Some p)"

subsection \<open>Task 2.5: environment summary\<close>

text \<open>
  The body of the loop \<^verbatim>\<open>for env in env_summary['Environment']\<close>:
  \<^verbatim>\<open>(len(env_df[env_df['Tagged'] == 'Yes']) / len(env_df) * 100) if len(env_df) > 0 else 0\<close>.
\<close>

definition env_tagged_pct :: "dataframe \<Rightarrow> string \<Rightarrow> error + rat" where
  "env_tagged_pct filtered_df env =
     (let env_df = where_eq ''Environment'' env filtered_df
      in if len env_df > 0
         then times100 (true_div (of_nat (len (where_eq ''Tagged'' ''Yes'' env_df)))
                                 (of_nat (len env_df)))
         else Inr 0)"

definition env_tagging :: "dataframe \<Rightarrow> (string \<times> (error + rat)) list" where
  "env_tagging filtered_df =
     map (\<lambda>env. (env, env_tagged_pct filtered_df env)) (group_keys ''Environment'' filtered_df)"

subsection \<open>Task 3.1 and Task 3.3: tag completeness and the missing-tag census\<close>

definition tag_columns :: "string list" where
  "tag_columns = [''Department'', ''Project'', ''Environment'', ''Owner'', ''CostCenter'']"

text \<open>\<^verbatim>\<open>filtered_df[tag_columns].notna().sum(axis=1)\<close>: one count per row.\<close>

definition completeness_scores :: "dataframe \<Rightarrow> nat list" where
  "completeness_scores df =
     map (\<lambda>r. length (filter notna r)) (rows (select_columns tag_columns df))"

text \<open>
  \<^verbatim>\<open>df[name] = values\<close>: a label the frame does not have yet is appended as a new
  last column; a label it has keeps its place and gets the new cells.
\<close>

definition set_cells :: "nat list \<Rightarrow> cell \<Rightarrow> row \<Rightarrow> row" where
  "set_cells idx v r = fold (\<lambda>i acc. acc[i := v]) idx r"

definition assign_column :: "string \<Rightarrow> cell list \<Rightarrow> dataframe \<Rightarrow> dataframe" where
  "assign_column name vals df =
     (case positions (columns df) name of
        [] \<Rightarrow> \<lparr>columns = columns df @ [name],
               rows = map (\<lambda>(r, v). r @ [v]) (zip (rows df) vals)\<rparr>
      | idx \<Rightarrow> df\<lparr>rows := map (\<lambda>(r, v). set_cells idx v r) (zip (rows df) vals)\<rparr>)"

text \<open>
  Line 346: the scores are stored in the filtered view itself, under
  \<^verbatim>\<open>TagCompletenessScore\<close>.
\<close>

definition score_view :: "dataframe \<Rightarrow> dataframe" where
  "score_view filtered_df =
     assign_column ''TagCompletenessScore''
       (map (\<lambda>n. Num (of_nat n)) (completeness_scores filtered_df)) filtered_df"

definition score_of :: "dataframe \<Rightarrow> row \<Rightarrow> rat" where
  "score_of df r = cost_of (get (columns df) ''TagCompletenessScore'' r)"

text \<open>\<^verbatim>\<open>.mean()\<close> of no values is NaN, here \<open>None\<close>; it does not raise.\<close>

definition avg_completeness :: "dataframe \<Rightarrow> rat option" where
  "avg_completeness df =
     (if rows df = [] then None
      else Some (sum_list (map (score_of df) (rows df)) / of_nat (len df)))"

definition fully_tagged :: "dataframe \<Rightarrow> nat" where
  "fully_tagged df = length (filter (\<lambda>r. score_of df r = 5) (rows df))"

definition poorly_tagged :: "dataframe \<Rightarrow> nat" where
  "poorly_tagged df = length (filter (\<lambda>r. score_of df r < 3) (rows df))"

text \<open>\<^verbatim>\<open>df.isnull().sum()\<close>: for each column, how many of its cells are null.\<close>

definition null_counts :: "dataframe \<Rightarrow> (string \<times> nat) list" where
  "null_counts df =
     map (\<lambda>i. (columns df ! i, length (filter (\<lambda>r. isnull (cell_at r i)) (rows df))))
       [0..<length (columns df)]"

text \<open>
  Line 374:
  \<^verbatim>\<open>filtered_df[tag_columns].isnull().sum().sort_values(ascending=False)\<close>.
\<close>

definition missing_tags :: "dataframe \<Rightarrow> (string \<times> nat) list" where
  "missing_tags filtered_df =
     sort_key (\<lambda>p. - int (snd p)) (null_counts (select_columns tag_columns filtered_df))"

section \<open>The tasks in sequence\<close>

text \<open>
  What the tasks compute from the filtered view. The script is one sequence of
  statements over the variable \<^verbatim>\<open>filtered_df\<close>: an exception ends it, and the
  statement of line 346 rebinds a column of the view, so the sequence is a function from
  the view to either the exception or the view as the tasks leave it, with the values
  computed on the way.
\<close>

record report =
  r_total_resources :: nat
  r_tagged_count :: nat
  r_untagged_count :: nat
  r_tagged_pct :: rat
  r_untagged_pct :: rat
  r_total_cost :: rat
  r_tagged_cost :: rat
  r_untagged_cost :: rat
  r_untagged_cost_pct :: rat
  r_dept_untagged :: "(string \<times> rat) list"
  r_project_cost :: "(string \<times> rat) list"
  r_env_tagging :: "(string \<times> rat) list"
  r_avg_completeness :: "rat option"
  r_fully_tagged :: nat
  r_poorly_tagged :: nat
  r_missing_tags :: "(string \<times> nat) list"
  r_env_cost :: "(string \<times> rat) list"

definition bind :: "error + 'a \<Rightarrow> ('a \<Rightarrow> error + 'b) \<Rightarrow> error + 'b" where
  "bind x f = (case x of Inl e \<Rightarrow> Inl e | Inr v \<Rightarrow> f v)"

fun sequence :: "('k \<times> (error + 'v)) list \<Rightarrow> error + ('k \<times> 'v) list" where
  "sequence [] = Inr []"
| "sequence ((k, x) # xs) =
     bind x (\<lambda>v. bind (sequence xs) (\<lambda>vs. Inr ((k, v) # vs)))"

definition run_tasks :: "dataframe \<Rightarrow> error + (dataframe \<times> report)" where
  "run_tasks filtered_df =
     bind (tagged_pct_metric filtered_df) (\<lambda>tagged_pct.
     bind (untagged_pct filtered_df) (\<lambda>untagged_pct_v.
     bind (untagged_cost_pct filtered_df) (\<lambda>untagged_cost_pct_v.
     bind (sequence (env_tagging filtered_df)) (\<lambda>env_pcts.
       (let scored = score_view filtered_df
        in Inr (scored,
             \<lparr>r_total_resources = len filtered_df,
              r_tagged_count = tagged_count filtered_df,
              r_untagged_count = untagged_count filtered_df,
              r_tagged_pct = tagged_pct,
              r_untagged_pct = untagged_pct_v,
              r_total_cost = total_cost filtered_df,
              r_tagged_cost = tagged_cost filtered_df,
              r_untagged_cost = untagged_cost filtered_df,
              r_untagged_cost_pct = untagged_cost_pct_v,
              r_dept_untagged = dept_untagged filtered_df,
              r_project_cost = project_cost filtered_df,
              r_env_tagging = env_pcts,
              r_avg_completeness = avg_completeness scored,
              r_fully_tagged = fully_tagged scored,
              r_poorly_tagged = poorly_tagged scored,
              r_missing_tags = missing_tags scored,
              r_env_cost = env_cost scored\<rparr>))))))"

text \<open>The filtered view as the tasks leave it.\<close>

definition view_after :: "dataframe \<Rightarrow> error + dataframe" where
  "view_after filtered_df =
     (case run_tasks filtered_df of Inl e \<Rightarrow> Inl e | Inr (v, rep) \<Rightarrow> Inr v)"

text \<open>The score of one row: how many of its cells under the tag columns are not null.\<close>

definition tag_idx :: "string list \<Rightarrow> nat list" where
  "tag_idx cols = concat (map (positions cols) tag_columns)"

definition row_score :: "string list \<Rightarrow> row \<Rightarrow> nat" where
  "row_score cols r = length (filter notna (map (cell_at r) (tag_idx cols)))"

text \<open>
  The script from the file to the tasks: load, halt on a missing required column, apply
  the sidebar selections, run the tasks.
\<close>

definition dashboard ::
  "(string \<Rightarrow> rat option) \<Rightarrow> string list \<Rightarrow>
   string list \<Rightarrow> string list \<Rightarrow> string list \<Rightarrow> string list \<Rightarrow>
   error + (dataframe \<times> report)" where
  "dashboard to_numeric lines selected_dept selected_service selected_region selected_env =
     bind (load_data to_numeric lines) (\<lambda>loaded.
     bind (check_columns loaded) (\<lambda>df.
       run_tasks (apply_filters df selected_dept selected_service selected_region selected_env)))"

section \<open>Task Set 5: the remediation copy\<close>

definition editable_cols :: "string list" where
  "editable_cols = [''ResourceID'', ''Service'', ''Department'', ''Project'', ''Environment'',
     ''Owner'', ''CostCenter'', ''MonthlyCostUSD'']"

text \<open>Lines 527-529.\<close>

definition untagged_editable :: "dataframe \<Rightarrow> dataframe" where
  "untagged_editable filtered_df =
     select_columns editable_cols (where_eq ''Tagged'' ''No'' filtered_df)"

text \<open>
  \<^verbatim>\<open>st.data_editor(untagged_editable, num_rows="dynamic")\<close> gives back the table with
  the user's cell edits, added rows and deleted rows: any rows, under the same columns.
\<close>

definition data_editor :: "dataframe \<Rightarrow> row list \<Rightarrow> dataframe" where
  "data_editor shown edited_rows = shown\<lparr>rows := edited_rows\<rparr>"

text \<open>\<^verbatim>\<open>df[tag_columns].isnull().any(axis=1)\<close>: one truth value per row.\<close>

definition any_null_tag :: "dataframe \<Rightarrow> bool list" where
  "any_null_tag df = map (list_ex isnull) (rows (select_columns tag_columns df))"

text \<open>\<^verbatim>\<open>df[mask]\<close>: the rows whose truth value is True.\<close>

definition mask_rows :: "bool list \<Rightarrow> dataframe \<Rightarrow> dataframe" where
  "mask_rows flags df = df\<lparr>rows := map snd (filter fst (zip flags (rows df)))\<rparr>"

text \<open>
  Line 571:
  \<^verbatim>\<open>len(untagged_editable) - len(edited_df[edited_df[tag_columns].isnull().any(axis=1)])\<close>,
  on Python's unbounded integers.
\<close>

definition improvement :: "dataframe \<Rightarrow> dataframe \<Rightarrow> int" where
  "improvement untagged_editable_df edited_df =
     int (len untagged_editable_df) - int (len (mask_rows (any_null_tag edited_df) edited_df))"

text \<open>Line 570: \<^verbatim>\<open>edited_df[tag_columns].isnull().sum().sum()\<close>.\<close>

definition missing_after :: "dataframe \<Rightarrow> nat" where
  "missing_after edited_df =
     sum_list (map snd (null_counts (select_columns tag_columns edited_df)))"

subsection \<open>CSV export\<close>

text \<open>
  \<^verbatim>\<open>df.to_csv(index=False)\<close>: a header line of the column labels, then one line per
  row. A field is put in double quotes, its own quotes doubled, when it contains a comma,
  a quote or a line break; a null is the empty field. How a number is printed is the
  parameter \<open>show_num\<close>.
\<close>

definition csv_field :: "string \<Rightarrow> string" where
  "csv_field s =
     (if list_ex (\<lambda>c. c \<in> set [CHR 0x2C, CHR 0x22, CHR 0x0A, CHR 0x0D]) s
      then [CHR 0x22] @ concat (map (\<lambda>c. if c = CHR 0x22 then [c, c] else [c]) s) @ [CHR 0x22]
      else s)"

fun join :: "string \<Rightarrow> string list \<Rightarrow> string" where
  "join sep [] = []"
| "join sep [x] = x"
| "join sep (x # y # ys) = x @ sep @ join sep (y # ys)"

definition csv_cell :: "(rat \<Rightarrow> string) \<Rightarrow> cell \<Rightarrow> string" where
  "csv_cell show_num c =
     (case c of Str s \<Rightarrow> csv_field s | Num q \<Rightarrow> show_num q | Null \<Rightarrow> [])"

definition to_csv :: "(rat \<Rightarrow> string) \<Rightarrow> dataframe \<Rightarrow> string list" where
  "to_csv show_num df =
     join '','' (map csv_field (columns df))
       # map (\<lambda>r. join '','' (map (csv_cell show_num) r)) (rows df)"

text \<open>The header line of an export, split back into its labels.\<close>

definition csv_columns :: "string list \<Rightarrow> string list" where
  "csv_columns csv = (case csv of [] \<Rightarrow> [] | h # _ \<Rightarrow> split_on (CHR 0x2C) h)"

section \<open>The specification's wording, for comparison\<close>



text \<open>
  The specification's improvement count: rows with at least one missing tag field
  before, minus rows with at least one missing tag field after.
\<close>

definition rows_missing_tag :: "dataframe \<Rightarrow> nat" where
  "rows_missing_tag df = length (filter (\<lambda>b. b) (any_null_tag df))"

definition rows_complete :: "dataframe \<Rightarrow> nat" where
  "rows_complete df = length (filter (\<lambda>b. \<not> b) (any_null_tag df))"

definition spec_improvement :: "dataframe \<Rightarrow> dataframe \<Rightarrow> int" where
  "spec_improvement before after = int (rows_missing_tag before) - int (rows_missing_tag after)"

section \<open>Example inputs\<close>

text \<open>
  A reading of plain decimal numerals, which \<^verbatim>\<open>pd.to_numeric\<close> reads the same way;
  it stands for \<open>to_numeric\<close> where an example is run.
\<close>

definition digit_of :: "char \<Rightarrow> nat option" where
  "digit_of c =
     (if CHR ''0'' \<le> c \<and> c \<le> CHR ''9'' then Some (of_char c - of_char CHR ''0'') else None)"

fun digits_value :: "nat \<Rightarrow> string \<Rightarrow> nat option" where
  "digits_value acc [] = Some acc"
| "digits_value acc (c # cs) =
     (case digit_of c of None \<Rightarrow> None | Some d \<Rightarrow> digits_value (10 * acc + d) cs)"

definition read_decimal :: "string \<Rightarrow> rat option" where
  "read_decimal s = (if s = [] then None else map_option of_nat (digits_value 0 s))"

definition header_line :: string where
  "header_line = ''AccountID,ResourceID,Service,Region,Department,Project,Environment,Owner,CostCenter,CreatedBy,MonthlyCostUSD,Tagged'' @ [CHR 0x0A]"

text \<open>
  The three records of the specification's end-to-end example, as lines of the file:
  Eng 100 tagged, Eng 50 untagged, Ops 25 untagged; the fields the example does not name
  are blank.
\<close>

definition example_lines :: "string list" where
  "example_lines =
     [header_line,
      ''A1,r1,EC2,east,Eng,,,,,,100,Yes'' @ [CHR 0x0A],
      ''A1,r2,EC2,east,Eng,,,,,,50,No'' @ [CHR 0x0A],
      ''A1,r3,S3,west,Ops,,,,,,25,No'' @ [CHR 0x0A]]"

definition all_sel :: "string list" where
  "all_sel = [''All'']"

text \<open>The frame \<open>load_data\<close> makes of these lines (lemma \<open>load_example\<close>).\<close>

definition example_df :: dataframe where
  "example_df =
     \<lparr>columns = required_cols,
      rows =
        [[Str ''A1'', Str ''r1'', Str ''EC2'', Str ''east'', Str ''Eng'', Str [], Str [], Str [],
          Str [], Str [], Num 100, Str ''Yes''],
         [Str ''A1'', Str ''r2'', Str ''EC2'', Str ''east'', Str ''Eng'', Str [], Str [], Str [],
          Str [], Str [], Num 50, Str ''No''],
         [Str ''A1'', Str ''r3'', Str ''S3'', Str ''west'', Str ''Ops'', Str [], Str [], Str [],
          Str [], Str [], Num 25, Str ''No'']]\<rparr>"

text \<open>
  Two projects with the same cost, \<^verbatim>\<open>Web\<close> on the first line and \<^verbatim>\<open>Api\<close> on the
  second, and the frame \<open>load_data\<close> makes of them (lemma \<open>load_tie\<close>).
\<close>

definition tie_lines :: "string list" where
  "tie_lines =
     [header_line,
      ''A1,r1,EC2,east,Eng,Web,Prod,ann,cc1,ann,10,Yes'' @ [CHR 0x0A],
      ''A1,r2,EC2,east,Eng,Api,Prod,bob,cc1,bob,10,Yes'' @ [CHR 0x0A]]"

definition tie_df :: dataframe where
  "tie_df =
     \<lparr>columns = required_cols,
      rows =
        [[Str ''A1'', Str ''r1'', Str ''EC2'', Str ''east'', Str ''Eng'', Str ''Web'',
          Str ''Prod'', Str ''ann'', Str ''cc1'', Str ''ann'', Num 10, Str ''Yes''],
         [Str ''A1'', Str ''r2'', Str ''EC2'', Str ''east'', Str ''Eng'', Str ''Api'',
          Str ''Prod'', Str ''bob'', Str ''cc1'', Str ''bob'', Num 10, Str ''Yes'']]\<rparr>"

text \<open>
  The remediation copy of the example once its tasks have run, and an edit of it: the
  user clears the department of both rows and adds a row with nothing filled in.
\<close>

definition example_copy :: dataframe where
  "example_copy = untagged_editable (score_view example_df)"

definition example_edit :: "row list" where
  "example_edit =
     [[Str ''r2'', Str ''EC2'', Null, Str [], Str [], Str [], Str [], Num 50],
      [Str ''r3'', Str ''S3'', Null, Str [], Str [], Str [], Str [], Num 25],
      [Null, Null, Null, Null, Null, Null, Null, Null]]"

section \<open>Basic facts\<close>

lemma load_example: "load_data read_decimal example_lines = Inr example_df"
  by code_simp

lemma load_tie: "load_data read_decimal tie_lines = Inr tie_df"
  by code_simp

lemma check_example: "check_columns example_df = Inr example_df"
  by (simp add: check_columns_def missing_cols_def example_df_def)

lemma columns_filter_isin [simp]: "columns (filter_isin name sel df) = columns df"
  by (simp add: filter_isin_def)

lemma columns_where_eq [simp]: "columns (where_eq name v df) = columns df"
  by (simp add: where_eq_def)

lemma columns_apply_filters [simp]: "columns (apply_filters df sd ss sr se) = columns df"
  by (simp add: apply_filters_def Let_def)

lemma apply_filters_all [simp]: "apply_filters df all_sel all_sel all_sel all_sel = df"
  by (simp add: apply_filters_def all_sel_def)

section \<open>Filters\<close>

text \<open>
  Claim C7. With the selection \<open>{"All"}\<close> on each of the four filter fields the filters
  return the canonical dataset as it is, rows in their order; and a selection that
  contains \<open>"All"\<close> restricts nothing, whatever else it contains: it gives the same
  view as the selection \<open>{"All"}\<close> on that field.
\<close>

theorem filters_all:
  "apply_filters df all_sel all_sel all_sel all_sel = df \<and>
   (''All'' \<in> set sd \<longrightarrow>
      apply_filters df sd ss sr se = apply_filters df all_sel ss sr se) \<and>
   (''All'' \<in> set ss \<longrightarrow>
      apply_filters df sd ss sr se = apply_filters df sd all_sel sr se) \<and>
   (''All'' \<in> set sr \<longrightarrow>
      apply_filters df sd ss sr se = apply_filters df sd ss all_sel se) \<and>
   (''All'' \<in> set se \<longrightarrow>
      apply_filters df sd ss sr se = apply_filters df sd ss sr all_sel)"
  by (simp add: apply_filters_def all_sel_def Let_def)

theorem filters_all_witness:
  "''All'' \<in> set [''Ops'', ''All''] \<and> ''All'' \<in> set [''All'', ''S3''] \<and>
   ''All'' \<in> set [''All''] \<and> ''All'' \<in> set [''Prod'', ''All''] \<and>
   apply_filters example_df [''Ops'', ''All''] [''All'', ''S3''] [''All''] [''Prod'', ''All'']
     = example_df \<and>
   len (apply_filters example_df [''Ops''] [''All''] [''All''] [''All'']) = 1"
proof -
  have a: "apply_filters example_df [''Ops'', ''All''] [''All'', ''S3''] [''All''] [''Prod'', ''All'']
             = apply_filters example_df all_sel [''All'', ''S3''] [''All''] [''Prod'', ''All'']"
    using filters_all [of example_df "[''Ops'', ''All'']" "[''All'', ''S3'']" "[''All'']"
        "[''Prod'', ''All'']"]
    by simp
  have b: "apply_filters example_df all_sel [''All'', ''S3''] [''All''] [''Prod'', ''All'']
             = example_df"
    by (simp add: apply_filters_def all_sel_def)
  have c: "len (apply_filters example_df [''Ops''] [''All''] [''All''] [''All'']) = 1"
    by code_simp
  show ?thesis using a b c by simp
qed

section \<open>Parsing\<close>

lemma data_rows_append:
  "data_rows h (xs @ ys) = data_rows h xs @ data_rows h ys"
  by (induction xs) (simp_all add: Let_def)

lemma data_rows_drop:
  "length (parse_fields bad) \<noteq> length h \<Longrightarrow>
   data_rows h (pre @ bad # post) = data_rows h (pre @ post)"
  by (simp add: data_rows_append Let_def)

lemma load_fails_by_header:
  "isl (load_data tn (hdr # ls)) = isl (load_data tn [hdr])"
  by (simp add: load_data_def Let_def split: list.splits)

text \<open>
  Claim C8. A data line whose field count, after the quotes are removed and the line is
  split at the commas, is not the header's field count is dropped: the file with the line
  loads to the same result as the file without it, so the lines before and after it are
  parsed as they are without it and the same valid lines appear; and the load raises
  with the line exactly when the header alone makes it raise.
\<close>

theorem malformed_line_dropped:
  assumes "length (parse_fields bad) \<noteq> length (parse_fields hdr)"
  shows "load_data tn (hdr # pre @ bad # post) = load_data tn (hdr # pre @ post) \<and>
         isl (load_data tn (hdr # pre @ bad # post)) = isl (load_data tn [hdr])"
proof -
  have eq: "data_rows (parse_fields hdr) (pre @ bad # post)
              = data_rows (parse_fields hdr) (pre @ post)"
    using assms by (rule data_rows_drop)
  have "load_data tn (hdr # pre @ bad # post) = load_data tn (hdr # pre @ post)"
    unfolding load_data_def list.case Let_def eq ..
  then show ?thesis
    by (simp add: load_fails_by_header [of tn hdr "pre @ post"])
qed

theorem malformed_line_dropped_witness:
  "length (parse_fields ''A1,r9,EC2'') \<noteq> length (parse_fields header_line) \<and>
   load_data read_decimal
     (header_line # [''A1,r1,EC2,east,Eng,,,,,,100,Yes''] @ ''A1,r9,EC2''
        # [''A1,r3,S3,west,Ops,,,,,,25,No''])
   = load_data read_decimal
     (header_line # [''A1,r1,EC2,east,Eng,,,,,,100,Yes''] @ [''A1,r3,S3,west,Ops,,,,,,25,No''])
   \<and> \<not> isl (load_data read_decimal
     (header_line # [''A1,r1,EC2,east,Eng,,,,,,100,Yes''] @ ''A1,r9,EC2''
        # [''A1,r3,S3,west,Ops,,,,,,25,No'']))"
proof -
  have h: "length (parse_fields ''A1,r9,EC2'') \<noteq> length (parse_fields header_line)"
    by code_simp
  have ok: "\<not> isl (load_data read_decimal [header_line])"
    by code_simp
  show ?thesis
    using h ok malformed_line_dropped [OF h, of read_decimal
        "[''A1,r1,EC2,east,Eng,,,,,,100,Yes'']" "[''A1,r3,S3,west,Ops,,,,,,25,No'']"]
    by metis
qed

section \<open>The end-to-end example\<close>

lemma dashboard_example:
  "dashboard read_decimal example_lines all_sel all_sel all_sel all_sel = run_tasks example_df"
  by (simp add: dashboard_def load_example check_example bind_def)

lemma run_tasks_example:
  "run_tasks example_df =
     Inr (score_view example_df,
       \<lparr>r_total_resources = 3, r_tagged_count = 1, r_untagged_count = 2,
        r_tagged_pct = 100 / 3, r_untagged_pct = 200 / 3,
        r_total_cost = 175, r_tagged_cost = 100, r_untagged_cost = 75,
        r_untagged_cost_pct = 300 / 7,
        r_dept_untagged = [(''Eng'', 50), (''Ops'', 25)],
        r_project_cost = [([], 175)], r_env_tagging = [([], 100 / 3)],
        r_avg_completeness = Some 5, r_fully_tagged = 3, r_poorly_tagged = 0,
        r_missing_tags =
          [(''Department'', 0), (''Project'', 0), (''Environment'', 0),
           (''Owner'', 0), (''CostCenter'', 0)],
        r_env_cost = [([], 175)]\<rparr>)"
  by code_simp

lemma fmt2_example: "fmt2 (300 / 7) = 4286 / 100"
  by code_simp

text \<open>
  Claim C9. On the file of the three records Eng 100 tagged, Eng 50 untagged and Ops 25
  untagged, with \<open>"All"\<close> selected on every filter, the script computes a total cost of
  175, an untagged cost of 75, an untagged cost percentage that prints as 42.86, and
  \<open>Eng\<close> at 50 as the first row of the untagged cost by department.
\<close>

theorem end_to_end_example:
  "\<exists>v rep.
     dashboard read_decimal example_lines all_sel all_sel all_sel all_sel = Inr (v, rep) \<and>
     r_total_cost rep = 175 \<and> r_untagged_cost rep = 75 \<and>
     fmt2 (r_untagged_cost_pct rep) = 4286 / 100 \<and>
     top_row (r_dept_untagged rep) = Some (''Eng'', 50)"
  by (simp add: dashboard_example run_tasks_example fmt2_example top_row_def)

section \<open>Percentages and the empty view\<close>

lemma rows_empty_selection [simp]: "rows (filter_isin name [] df) = []"
  by (simp add: filter_isin_def isin_def split: cell.splits)

lemma rows_where_eq_empty [simp]: "rows df = [] \<Longrightarrow> rows (where_eq name v df) = []"
  by (simp add: where_eq_def)

lemma rows_filter_isin_empty [simp]: "rows df = [] \<Longrightarrow> rows (filter_isin name sel df) = []"
  by (simp add: filter_isin_def)

lemma rows_no_department [simp]: "rows (apply_filters df [] ss sr se) = []"
  by (simp add: apply_filters_def Let_def)

lemma tagged_pct_empty: "rows v = [] \<Longrightarrow> tagged_pct_metric v = Inl ZeroDivisionError"
  by (simp add: tagged_pct_metric_def true_div_def len_def times100_def)

lemma untagged_pct_empty: "rows v = [] \<Longrightarrow> untagged_pct v = Inr 0"
  by (simp add: untagged_pct_def len_def)

lemma untagged_cost_pct_empty: "rows v = [] \<Longrightarrow> untagged_cost_pct v = Inr 0"
  by (simp add: untagged_cost_pct_def total_cost_def sum_cost_def)

lemma env_tagging_empty: "rows v = [] \<Longrightarrow> env_tagging v = []"
  by (simp add: env_tagging_def group_keys_def)

lemma run_tasks_empty: "rows v = [] \<Longrightarrow> run_tasks v = Inl ZeroDivisionError"
  by (simp add: run_tasks_def tagged_pct_empty bind_def)

text \<open>The three guarded percentages never raise; the one of Task 1.4 needs a row.\<close>

lemma untagged_pct_defined: "\<not> isl (untagged_pct v)"
  by (simp add: untagged_pct_def true_div_def times100_def)

lemma untagged_cost_pct_defined: "\<not> isl (untagged_cost_pct v)"
  by (simp add: untagged_cost_pct_def true_div_def times100_def)

lemma env_tagged_pct_defined: "\<not> isl (env_tagged_pct v env)"
  by (simp add: env_tagged_pct_def true_div_def times100_def Let_def)

lemma tagged_pct_defined: "rows v \<noteq> [] \<Longrightarrow> \<not> isl (tagged_pct_metric v)"
  by (simp add: tagged_pct_metric_def true_div_def times100_def len_def)

text \<open>
  Claim C1. The claim asks that on an empty filtered view each of the four percentages
  is 0. The script leaves the three guarded ones at 0 (Task 1.5, Task 2.2) or without a
  row to fill (Task 2.5); the metric of Task 1.4 divides by the length of the view
  unguarded. With no department selected the view is empty, whatever the dataset and
  the other selections: there the Task 1.4 metric raises \<^verbatim>\<open>ZeroDivisionError\<close>, and with
  it the run of the tasks.
\<close>

theorem tagged_pct_raises_on_empty_view:
  "tagged_pct_metric (apply_filters df [] ss sr se) = Inl ZeroDivisionError \<and>
   run_tasks (apply_filters df [] ss sr se) = Inl ZeroDivisionError \<and>
   untagged_pct (apply_filters df [] ss sr se) = Inr 0 \<and>
   untagged_cost_pct (apply_filters df [] ss sr se) = Inr 0 \<and>
   env_tagging (apply_filters df [] ss sr se) = []"
  by (simp add: tagged_pct_empty run_tasks_empty untagged_pct_empty untagged_cost_pct_empty
      env_tagging_empty)

section \<open>Selecting columns\<close>

lemma nth_positions: "map ((!) cols) (positions cols n) = filter (\<lambda>c. c = n) cols"
proof -
  have "filter (\<lambda>c. c = n) (map ((!) cols) [0..<length cols])
          = map ((!) cols) (positions cols n)"
    by (simp add: filter_map positions_def comp_def)
  then show ?thesis by (simp add: map_nth)
qed

lemma filter_eq_distinct:
  "distinct xs \<Longrightarrow> n \<in> set xs \<Longrightarrow> filter (\<lambda>c. c = n) xs = [n]"
  by (induction xs) (auto simp: filter_empty_conv)

lemma columns_select:
  "columns (select_columns names df)
     = concat (map (\<lambda>n. filter (\<lambda>c. c = n) (columns df)) names)"
  by (simp add: select_columns_def Let_def map_concat nth_positions comp_def)

lemma columns_select_distinct:
  "distinct (columns df) \<Longrightarrow> set names \<subseteq> set (columns df) \<Longrightarrow>
   columns (select_columns names df) = names"
  unfolding columns_select
  by (induction names) (simp_all add: filter_eq_distinct)

lemma length_rows_select [simp]:
  "length (rows (select_columns names df)) = length (rows df)"
  by (simp add: select_columns_def Let_def)

section \<open>The remediation copy\<close>

lemma csv_header_editable:
  "csv_columns (to_csv sn \<lparr>columns = editable_cols, rows = rs\<rparr>) = editable_cols"
  unfolding to_csv_def csv_columns_def by code_simp

lemma columns_untagged_editable:
  assumes "distinct (columns v)" and "set editable_cols \<subseteq> set (columns v)"
  shows "columns (untagged_editable v) = editable_cols"
  using assms by (simp add: untagged_editable_def columns_select_distinct)

lemma score_view_example_columns:
  "columns (score_view example_df) = required_cols @ [''TagCompletenessScore'']"
  by code_simp

lemma example_copy_rows:
  "example_copy = \<lparr>columns = editable_cols, rows =
     [[Str ''r2'', Str ''EC2'', Str ''Eng'', Str [], Str [], Str [], Str [], Num 50],
      [Str ''r3'', Str ''S3'', Str ''Ops'', Str [], Str [], Str [], Str [], Num 25]]\<rparr>"
  unfolding example_copy_def by code_simp

text \<open>
  Claim C10. The remediation copy made from a filtered view has exactly the eight
  columns ResourceID, Service, Department, Project, Environment, Owner, CostCenter,
  MonthlyCostUSD, in this order; so has the table the editor gives back, whatever the
  user did to its rows, and so has the header line of its CSV export. AccountID,
  CreatedBy, Tagged and TagCompletenessScore are not among them. The view is one whose
  column labels are pairwise distinct and include the eight.
\<close>

theorem remediation_copy_columns:
  assumes "distinct (columns v)" and "set editable_cols \<subseteq> set (columns v)"
  shows "columns (untagged_editable v) = editable_cols \<and>
         columns (data_editor (untagged_editable v) edited_rows) = editable_cols \<and>
         csv_columns (to_csv show_num (data_editor (untagged_editable v) edited_rows))
           = editable_cols \<and>
         list_all (\<lambda>c. c \<notin> set (columns (data_editor (untagged_editable v) edited_rows)))
           [''AccountID'', ''CreatedBy'', ''Tagged'', ''TagCompletenessScore'']"
proof -
  have c: "columns (untagged_editable v) = editable_cols"
    using assms by (rule columns_untagged_editable)
  have d: "data_editor (untagged_editable v) edited_rows
             = \<lparr>columns = editable_cols, rows = edited_rows\<rparr>"
    by (simp add: data_editor_def c [symmetric])
  have e: "list_all (\<lambda>c. c \<notin> set editable_cols)
             [''AccountID'', ''CreatedBy'', ''Tagged'', ''TagCompletenessScore'']"
    by code_simp
  show ?thesis
    using c e by (simp add: d csv_header_editable)
qed

theorem remediation_copy_columns_witness:
  "distinct (columns (score_view example_df)) \<and>
   set editable_cols \<subseteq> set (columns (score_view example_df)) \<and>
   columns (score_view example_df) = required_cols @ [''TagCompletenessScore''] \<and>
   columns (data_editor example_copy example_edit) = editable_cols \<and>
   csv_columns (to_csv (\<lambda>q. []) (data_editor example_copy example_edit)) = editable_cols"
proof -
  have h1: "distinct (columns (score_view example_df))"
    unfolding score_view_example_columns by code_simp
  have h2: "set editable_cols \<subseteq> set (columns (score_view example_df))"
    unfolding score_view_example_columns by code_simp
  show ?thesis
    using h1 h2 remediation_copy_columns [OF h1 h2, of example_edit "\<lambda>q. []"]
    by (simp add: example_copy_def score_view_example_columns)
qed

section \<open>The improvement count\<close>

lemma length_any_null_tag [simp]: "length (any_null_tag df) = length (rows df)"
  by (simp add: any_null_tag_def)

lemma length_filter_fst_zip:
  "length fs = length rs \<Longrightarrow>
   length (filter fst (zip fs rs)) = length (filter (\<lambda>b. b) fs)"
  by (induction fs rs rule: list_induct2) simp_all

lemma len_mask_rows:
  "length flags = length (rows df) \<Longrightarrow>
   len (mask_rows flags df) = length (filter (\<lambda>b. b) flags)"
  by (simp add: len_def mask_rows_def length_filter_fst_zip)

lemma improvement_eq:
  "improvement before after = int (len before) - int (rows_missing_tag after)"
  by (simp add: improvement_def rows_missing_tag_def len_mask_rows)

lemma len_missing_complete: "len df = rows_missing_tag df + rows_complete df"
  using sum_length_filter_compl [of "\<lambda>b. b" "any_null_tag df"]
  by (simp add: len_def rows_missing_tag_def rows_complete_def)

text \<open>
  Claim C3, as the specification words it, fails: the minuend of line 571 is the number
  of all rows of the remediation copy, not the number of its rows with a missing tag
  field. On the copy of the example, shown and given back unedited, no row has a missing
  tag field before or after, so the specification's count is 0, and the script's is 2.
\<close>

theorem improvement_counterexample:
  "improvement example_copy (data_editor example_copy (rows example_copy)) = 2 \<and>
   spec_improvement example_copy (data_editor example_copy (rows example_copy)) = 0 \<and>
   improvement example_copy (data_editor example_copy (rows example_copy))
     \<noteq> spec_improvement example_copy (data_editor example_copy (rows example_copy))"
  unfolding example_copy_rows by code_simp

text \<open>
  Claim C3, amended. The improvement count is the number of rows of the remediation
  copy before editing minus the number of rows with at least one missing tag field after
  editing, as a subtraction of integers: it is the specification's difference plus the
  number of rows that had no missing tag field before. It is not clamped: clearing the
  department of both rows of the example's copy and adding an empty row gives -1.
\<close>

theorem improvement_is_rows_before_minus_missing_after:
  "improvement before after = int (len before) - int (rows_missing_tag after) \<and>
   improvement before after = spec_improvement before after + int (rows_complete before) \<and>
   improvement example_copy (data_editor example_copy example_edit) = - 1"
proof -
  have neg: "improvement example_copy (data_editor example_copy example_edit) = - 1"
    unfolding example_copy_rows by code_simp
  show ?thesis
    using neg by (simp add: improvement_eq spec_improvement_def len_missing_complete)
qed

section \<open>What the tasks do to the view\<close>

lemma sequence_defined:
  "list_all (\<lambda>p. \<not> isl (snd p)) xs \<Longrightarrow> \<not> isl (sequence xs)"
proof (induction xs)
  case Nil
  then show ?case by simp
next
  case (Cons p xs)
  obtain k x where p: "p = (k, x)" by (cases p)
  from Cons obtain v where x: "x = Inr v" by (cases x) (auto simp: p)
  from Cons obtain vs where vs: "sequence xs = Inr vs" by (cases "sequence xs") auto
  show ?case by (simp add: p x vs bind_def)
qed

lemma env_tagging_defined: "\<not> isl (sequence (env_tagging v))"
  by (rule sequence_defined) (simp add: env_tagging_def list_all_iff env_tagged_pct_defined)

lemma view_after_nonempty:
  assumes "rows v \<noteq> []"
  shows "view_after v = Inr (score_view v)"
proof -
  obtain a where a: "tagged_pct_metric v = Inr a"
    using tagged_pct_defined [OF assms] by (cases "tagged_pct_metric v") auto
  obtain b where b: "untagged_pct v = Inr b"
    using untagged_pct_defined [of v] by (cases "untagged_pct v") auto
  obtain c where c: "untagged_cost_pct v = Inr c"
    using untagged_cost_pct_defined [of v] by (cases "untagged_cost_pct v") auto
  obtain d where d: "sequence (env_tagging v) = Inr d"
    using env_tagging_defined [of v] by (cases "sequence (env_tagging v)") auto
  show ?thesis
    by (simp add: view_after_def run_tasks_def a b c d bind_def Let_def)
qed

lemma positions_absent: "name \<notin> set cols \<Longrightarrow> positions cols name = []"
  by (auto simp: positions_def filter_empty_conv)

lemma completeness_scores_rows:
  "completeness_scores v = map (row_score (columns v)) (rows v)"
  by (simp add: completeness_scores_def select_columns_def row_score_def tag_idx_def Let_def)

lemma zip_map_same: "zip xs (map f xs) = map (\<lambda>x. (x, f x)) xs"
  by (induction xs) simp_all

lemma score_view_new_column:
  assumes "''TagCompletenessScore'' \<notin> set (columns v)"
  shows "score_view v =
           \<lparr>columns = columns v @ [''TagCompletenessScore''],
            rows = map (\<lambda>r. r @ [Num (of_nat (row_score (columns v) r))]) (rows v)\<rparr>"
  by (simp add: score_view_def assign_column_def positions_absent [OF assms]
      completeness_scores_rows zip_map_same comp_def)

text \<open>
  Claim C4, amended. The tasks leave the rows of the filtered view in their order and
  every cell and column it had as they were, and change the view in one way: the
  completeness scoring of line 346 appends the column \<^verbatim>\<open>TagCompletenessScore\<close>, which
  holds each row's score. This is for a view with at least one row (on an empty one the
  Task 1.4 metric raises before anything is stored) that has no column of that name yet.
\<close>

theorem tasks_append_score_column:
  assumes "rows v \<noteq> []" and "''TagCompletenessScore'' \<notin> set (columns v)"
  shows "view_after v =
           Inr \<lparr>columns = columns v @ [''TagCompletenessScore''],
                rows = map (\<lambda>r. r @ [Num (of_nat (row_score (columns v) r))]) (rows v)\<rparr> \<and>
         map_sum id (\<lambda>v'. (butlast (columns v'), map butlast (rows v'))) (view_after v)
           = Inr (columns v, rows v)"
  by (simp add: view_after_nonempty [OF assms(1)] score_view_new_column [OF assms(2)] comp_def)

theorem tasks_append_score_column_witness:
  "rows example_df \<noteq> [] \<and> ''TagCompletenessScore'' \<notin> set (columns example_df) \<and>
   map_sum id (\<lambda>v'. (butlast (columns v'), map butlast (rows v'))) (view_after example_df)
     = Inr (columns example_df, rows example_df) \<and>
   map_sum id columns (view_after example_df) = Inr (required_cols @ [''TagCompletenessScore''])"
proof -
  have h1: "rows example_df \<noteq> []" by (simp add: example_df_def)
  have h2: "''TagCompletenessScore'' \<notin> set (columns example_df)"
    by (simp add: example_df_def required_cols_def)
  have c: "columns example_df = required_cols" by (simp add: example_df_def)
  note t = tasks_append_score_column [OF h1 h2]
  have x: "map_sum id columns (view_after example_df)
             = Inr (required_cols @ [''TagCompletenessScore''])"
    using t by (simp add: c)
  show ?thesis
    using h1 h2 t [THEN conjunct2] x by blast
qed

text \<open>
  Claim C4, as the specification words it, fails: after the tasks have run on the view
  of the example, the view has thirteen columns, not the twelve it had.
\<close>

theorem tasks_mutate_view_counterexample:
  "view_after example_df = Inr (score_view example_df) \<and>
   columns example_df = required_cols \<and>
   columns (score_view example_df) = required_cols @ [''TagCompletenessScore''] \<and>
   view_after example_df \<noteq> Inr example_df"
proof -
  have a: "view_after example_df = Inr (score_view example_df)"
    by (rule view_after_nonempty) (simp add: example_df_def)
  have b: "columns example_df = required_cols" by (simp add: example_df_def)
  have "columns (score_view example_df) \<noteq> columns example_df"
    by (simp add: score_view_example_columns b)
  then have "score_view example_df \<noteq> example_df" by auto
  then show ?thesis by (simp add: a b score_view_example_columns)
qed

section \<open>Loaded fields are texts\<close>

lemma load_data_Inr:
  assumes "load_data tn lines = Inr df"
  obtains h rest i where "lines = h # rest"
    and "positions (parse_fields h) ''MonthlyCostUSD'' = [i]"
    and "columns df = parse_fields h"
    and "rows df = map (coerce_row tn i) (map (map Str) (data_rows (parse_fields h) rest))"
  using assms by (auto simp: load_data_def Let_def split: list.splits)

lemma data_rows_length: "vals \<in> set (data_rows h ls) \<Longrightarrow> length vals = length h"
  by (induction ls) (auto simp: Let_def split: if_splits)

lemma set_positions: "set (positions cols n) = {j. j < length cols \<and> cols ! j = n}"
  by (auto simp: positions_def)

lemma positions_single:
  assumes "positions cols n = [i]" and "j < length cols" and "cols ! j = n"
  shows "j = i"
proof -
  have "j \<in> set (positions cols n)" using assms(2,3) by (simp add: set_positions)
  then show ?thesis by (simp add: assms(1))
qed

lemma text_row_coerce:
  assumes p: "positions cols ''MonthlyCostUSD'' = [i]" and l: "length vals = length cols"
  shows "text_row cols (coerce_row tn i (map Str vals))"
proof -
  have len: "length (coerce_row tn i (map Str vals)) = length cols"
    by (simp add: coerce_row_def l)
  have "n = ''MonthlyCostUSD'' \<or> text_cell c"
    if "(n, c) \<in> set (zip cols (coerce_row tn i (map Str vals)))" for n c
  proof -
    from that obtain j where j: "j < length cols" "n = cols ! j"
        "c = coerce_row tn i (map Str vals) ! j"
      by (auto simp: set_zip len)
    show ?thesis
    proof (cases "j = i")
      case True
      have "i \<in> set (positions cols ''MonthlyCostUSD'')" by (simp add: p)
      then have "cols ! i = ''MonthlyCostUSD''" by (simp add: set_positions)
      then show ?thesis by (simp add: j True)
    next
      case False
      then have "c = Str (vals ! j)"
        using j l by (simp add: coerce_row_def)
      then show ?thesis by (simp add: text_cell_def)
    qed
  qed
  then show ?thesis
    by (auto simp: text_row_def len list_all_iff)
qed

lemma loaded_text_rows:
  assumes "load_data tn lines = Inr df"
  shows "list_all (text_row (columns df)) (rows df)"
proof -
  from assms obtain h rest i where
    p: "positions (parse_fields h) ''MonthlyCostUSD'' = [i]" and
    c: "columns df = parse_fields h" and
    r: "rows df = map (coerce_row tn i) (map (map Str) (data_rows (parse_fields h) rest))"
    by (rule load_data_Inr)
  show ?thesis
    unfolding c r list_all_iff
    by (auto intro!: text_row_coerce [OF p] dest: data_rows_length)
qed

lemma rows_filter_isin_subset: "set (rows (filter_isin name sel df)) \<subseteq> set (rows df)"
  by (auto simp: filter_isin_def)

lemma rows_apply_filters_subset: "set (rows (apply_filters df sd ss sr se)) \<subseteq> set (rows df)"
  unfolding apply_filters_def Let_def
  using rows_filter_isin_subset by (auto split: if_splits) blast+

lemma check_columns_Inr:
  "check_columns df = Inr df' \<Longrightarrow> df' = df \<and> set required_cols \<subseteq> set (columns df)"
  by (auto simp: check_columns_def missing_cols_def filter_empty_conv split: if_splits)

lemma tag_columns_required: "set tag_columns \<subseteq> set required_cols"
  by (simp add: tag_columns_def required_cols_def)

lemma length_positions_distinct:
  assumes "distinct cols" and "n \<in> set cols"
  shows "length (positions cols n) = 1"
proof -
  have "length (map ((!) cols) (positions cols n)) = length [n]"
    by (simp only: nth_positions filter_eq_distinct [OF assms])
  then show ?thesis by simp
qed

lemma length_tag_idx:
  assumes "distinct cols" and "set tag_columns \<subseteq> set cols"
  shows "length (tag_idx cols) = 5"
  using assms by (simp add: tag_idx_def tag_columns_def length_positions_distinct)

lemma tag_idx_cells:
  assumes t: "text_row cols r" and i: "i \<in> set (tag_idx cols)"
  shows "text_cell (cell_at r i)"
proof -
  from i obtain n where n: "n \<in> set tag_columns" "i \<in> set (positions cols n)"
    by (auto simp: tag_idx_def)
  then have ic: "i < length cols" "cols ! i = n" by (simp_all add: set_positions)
  from n(1) have ne: "n \<noteq> ''MonthlyCostUSD''" by (auto simp: tag_columns_def)
  from t have l: "length r = length cols" by (simp add: text_row_def)
  have "(cols ! i, r ! i) \<in> set (zip cols r)"
    using ic l by (auto simp: set_zip)
  with t have "cols ! i = ''MonthlyCostUSD'' \<or> text_cell (r ! i)"
    by (auto simp: text_row_def list_all_iff)
  then show ?thesis using ne ic l by (simp add: cell_at_def)
qed

lemma text_cell_notna: "text_cell c \<Longrightarrow> notna c"
  by (cases c) (simp_all add: text_cell_def notna_def)

lemma row_score_text:
  assumes "text_row cols r" and "distinct cols" and "set tag_columns \<subseteq> set cols"
  shows "row_score cols r = 5"
proof -
  have "filter notna (map (cell_at r) (tag_idx cols)) = map (cell_at r) (tag_idx cols)"
    using tag_idx_cells [OF assms(1)] by (auto simp: filter_id_conv intro: text_cell_notna)
  then show ?thesis
    by (simp add: row_score_def length_tag_idx [OF assms(2,3)])
qed


lemma map_const_replicate: "(\<And>x. x \<in> set xs \<Longrightarrow> f x = c) \<Longrightarrow> map f xs = replicate (length xs) c"
  by (induction xs) simp_all

lemma rows_select_tags:
  "rows (select_columns tag_columns v) = map (\<lambda>r. map (cell_at r) (tag_idx (columns v))) (rows v)"
  by (simp add: select_columns_def tag_idx_def Let_def)

lemma view_text_rows:
  assumes "load_data tn lines = Inr df"
  shows "list_all (text_row (columns df)) (rows (apply_filters df sd ss sr se))"
  using loaded_text_rows [OF assms] rows_apply_filters_subset [of df sd ss sr se]
  by (auto simp: list_all_iff)

lemma scores_all_five:
  assumes "list_all (text_row (columns v)) (rows v)" and "distinct (columns v)"
    and "set tag_columns \<subseteq> set (columns v)"
  shows "completeness_scores v = replicate (len v) 5"
  unfolding completeness_scores_rows len_def
  using assms by (intro map_const_replicate row_score_text) (auto simp: list_all_iff)

lemma null_counts_tags:
  assumes t: "list_all (text_row (columns v)) (rows v)" and d: "distinct (columns v)"
    and s: "set tag_columns \<subseteq> set (columns v)"
  shows "null_counts (select_columns tag_columns v) = map (\<lambda>c. (c, 0)) tag_columns"
proof -
  have c: "columns (select_columns tag_columns v) = tag_columns"
    using d s by (rule columns_select_distinct)
  have l: "length (tag_idx (columns v)) = 5"
    using d s by (rule length_tag_idx)
  have z: "filter (\<lambda>r. isnull (cell_at r i)) (rows (select_columns tag_columns v)) = []"
    if "i < 5" for i
  proof -
    have "\<not> isnull (cell_at (map (cell_at r) (tag_idx (columns v))) i)" if "r \<in> set (rows v)" for r
    proof -
      from t that have tr: "text_row (columns v) r" by (simp add: list_all_iff)
      have "tag_idx (columns v) ! i \<in> set (tag_idx (columns v))"
        using \<open>i < 5\<close> l by simp
      from tag_idx_cells [OF tr this] have "text_cell (cell_at r (tag_idx (columns v) ! i))" .
      then have "notna (cell_at r (tag_idx (columns v) ! i))" by (rule text_cell_notna)
      then show ?thesis using \<open>i < 5\<close> l by (simp add: cell_at_def isnull_def notna_def)
    qed
    then show ?thesis by (auto simp: rows_select_tags filter_empty_conv)
  qed
  have n5: "length tag_columns = 5" by (simp add: tag_columns_def)
  have "null_counts (select_columns tag_columns v)
          = map (\<lambda>i. (tag_columns ! i, 0)) [0..<length tag_columns]"
    unfolding null_counts_def c by (rule map_cong) (simp_all add: z n5)
  also have "\<dots> = map (\<lambda>c. (c, 0)) (map ((!) tag_columns) [0..<length tag_columns])"
    by (simp only: map_map comp_def)
  also have "\<dots> = map (\<lambda>c. (c, 0)) tag_columns"
    by (simp only: map_nth)
  finally show ?thesis .
qed

lemma missing_tags_zero:
  assumes "list_all (text_row (columns v)) (rows v)" and "distinct (columns v)"
    and "set tag_columns \<subseteq> set (columns v)"
  shows "mset (missing_tags v) = mset (map (\<lambda>c. (c, 0)) tag_columns)"
  by (simp only: missing_tags_def mset_sort null_counts_tags [OF assms])


lemma select_tags_eq:
  "select_columns tag_columns v =
     \<lparr>columns = map ((!) (columns v)) (tag_idx (columns v)),
      rows = map (\<lambda>r. map (cell_at r) (tag_idx (columns v))) (rows v)\<rparr>"
  by (simp add: select_columns_def tag_idx_def Let_def)

lemma tag_idx_bound:
  "i \<in> set (tag_idx cols) \<Longrightarrow> i < length cols \<and> cols ! i \<in> set tag_columns"
  by (auto simp: tag_idx_def set_positions)

lemma tag_not_score: "n \<in> set tag_columns \<Longrightarrow> n \<noteq> ''TagCompletenessScore''"
  by (auto simp: tag_columns_def)

lemma positions_snoc_other: "n \<noteq> m \<Longrightarrow> positions (cols @ [m]) n = positions cols n"
  by (auto simp: positions_def nth_append intro: filter_cong)

lemma tag_idx_snoc: "tag_idx (cols @ [''TagCompletenessScore'']) = tag_idx cols"
  unfolding tag_idx_def
  by (rule arg_cong [where f = concat], rule map_cong)
     (auto dest: tag_not_score simp: positions_snoc_other)

lemma cell_at_snoc: "i < length r \<Longrightarrow> cell_at (r @ [x]) i = cell_at r i"
  by (simp add: cell_at_def nth_append)

lemma length_set_cells [simp]: "length (set_cells idx x r) = length r"
  unfolding set_cells_def by (induction idx arbitrary: r) simp_all

lemma nth_set_cells: "i \<notin> set idx \<Longrightarrow> set_cells idx x r ! i = r ! i"
  unfolding set_cells_def by (induction idx arbitrary: r) auto

lemma cell_at_set_cells: "i \<notin> set idx \<Longrightarrow> cell_at (set_cells idx x r) i = cell_at r i"
  by (simp add: cell_at_def nth_set_cells)

lemma score_view_old_column:
  assumes "positions (columns v) ''TagCompletenessScore'' \<noteq> []"
  shows "score_view v =
           v\<lparr>rows := map (\<lambda>r. set_cells (positions (columns v) ''TagCompletenessScore'')
                              (Num (of_nat (row_score (columns v) r))) r) (rows v)\<rparr>"
  using assms
  by (cases "positions (columns v) ''TagCompletenessScore''")
     (simp_all add: score_view_def assign_column_def completeness_scores_rows zip_map_same
        comp_def)

lemma positions_empty_iff: "positions cols n = [] \<longleftrightarrow> n \<notin> set cols"
  by (auto simp: positions_def filter_empty_conv in_set_conv_nth)

lemma select_tags_score_view:
  assumes rect: "list_all (\<lambda>r. length r = length (columns v)) (rows v)"
  shows "select_columns tag_columns (score_view v) = select_columns tag_columns v"
proof (cases "''TagCompletenessScore'' \<in> set (columns v)")
  case False
  have b: "i < length (columns v)" if "i \<in> set (tag_idx (columns v))" for i
    using tag_idx_bound [OF that] by simp
  have c: "map ((!) (columns v @ [''TagCompletenessScore''])) (tag_idx (columns v))
             = map ((!) (columns v)) (tag_idx (columns v))"
    by (rule map_cong) (simp_all add: nth_append b)
  have r: "map (cell_at (r @ [x])) (tag_idx (columns v)) = map (cell_at r) (tag_idx (columns v))"
    if "r \<in> set (rows v)" for r x
  proof (rule map_cong)
    fix i assume "i \<in> set (tag_idx (columns v))"
    then have "i < length r" using b rect that by (auto simp: list_all_iff)
    then show "cell_at (r @ [x]) i = cell_at r i" by (rule cell_at_snoc)
  qed simp
  show ?thesis
    unfolding select_tags_eq score_view_new_column [OF False]
    by (simp add: tag_idx_snoc c r comp_def cong: map_cong)
next
  case True
  then have p: "positions (columns v) ''TagCompletenessScore'' \<noteq> []"
    by (simp add: positions_empty_iff)
  have r: "cell_at (set_cells (positions (columns v) ''TagCompletenessScore'') x r) i = cell_at r i"
    if "i \<in> set (tag_idx (columns v))" for i x r
  proof (rule cell_at_set_cells)
    from tag_idx_bound [OF that] have "columns v ! i \<noteq> ''TagCompletenessScore''"
      by (auto dest: tag_not_score)
    then show "i \<notin> set (positions (columns v) ''TagCompletenessScore'')"
      by (simp add: set_positions)
  qed
  show ?thesis
    unfolding select_tags_eq score_view_old_column [OF p]
    by (simp add: r comp_def cong: map_cong)
qed

lemma missing_tags_score_view:
  "list_all (\<lambda>r. length r = length (columns v)) (rows v) \<Longrightarrow>
   missing_tags (score_view v) = missing_tags v"
  by (simp add: missing_tags_def select_tags_score_view)

lemma text_rows_rectangular:
  "list_all (text_row cols) rs \<Longrightarrow> list_all (\<lambda>r. length r = length cols) rs"
  by (auto simp: list_all_iff text_row_def)

text \<open>
  Claim C2. Whatever the file, when \<open>load_data\<close> returns a frame every row has one
  cell per column and every cell that is not under \<^verbatim>\<open>MonthlyCostUSD\<close> is a text,
  possibly the empty one, never null. Consequently, when the frame passes the schema
  check and its header names each column once, every row of every filtered view scores
  5 on the five tag columns, and the missing-tag census, taken as the script takes it
  from the view that holds the scores, has one entry for each of the five tag fields,
  with the count 0.
\<close>

theorem loaded_fields_are_text:
  assumes "load_data to_numeric lines = Inr df" and "check_columns df = Inr df"
    and "distinct (columns df)"
  shows "list_all (text_row (columns df)) (rows df) \<and>
         completeness_scores (apply_filters df sd ss sr se)
           = replicate (len (apply_filters df sd ss sr se)) 5 \<and>
         mset (missing_tags (score_view (apply_filters df sd ss sr se)))
           = mset (map (\<lambda>c. (c, 0)) tag_columns)"
proof -
  let ?v = "apply_filters df sd ss sr se"
  have t: "list_all (text_row (columns ?v)) (rows ?v)"
    using view_text_rows [OF assms(1)] by simp
  have d: "distinct (columns ?v)" using assms(3) by simp
  have s: "set tag_columns \<subseteq> set (columns ?v)"
    using check_columns_Inr [OF assms(2)] tag_columns_required by auto
  have m: "missing_tags (score_view ?v) = missing_tags ?v"
    by (rule missing_tags_score_view) (rule text_rows_rectangular [OF t])
  show ?thesis
    using loaded_text_rows [OF assms(1)] scores_all_five [OF t d s] missing_tags_zero [OF t d s]
    by (simp add: m)
qed

theorem loaded_fields_are_text_witness:
  "load_data read_decimal example_lines = Inr example_df \<and>
   check_columns example_df = Inr example_df \<and> distinct (columns example_df) \<and>
   get (columns example_df) ''Project'' (hd (rows example_df)) = Str [] \<and>
   list_all (text_row (columns example_df)) (rows example_df) \<and>
   completeness_scores (apply_filters example_df all_sel all_sel all_sel all_sel) = [5, 5, 5] \<and>
   mset (missing_tags (score_view (apply_filters example_df all_sel all_sel all_sel all_sel)))
     = mset [(''Department'', 0), (''Project'', 0), (''Environment'', 0), (''Owner'', 0),
        (''CostCenter'', 0)]"
proof -
  have d: "distinct (columns example_df)" by code_simp
  have b: "get (columns example_df) ''Project'' (hd (rows example_df)) = Str []" by code_simp
  have l: "len example_df = 3" by code_simp
  note t = loaded_fields_are_text [OF load_example check_example d, of all_sel all_sel all_sel all_sel]
  show ?thesis
    using t d b load_example check_example
    by (simp add: l tag_columns_def numeral_3_eq_3)
qed

section \<open>Group-by-sum: conservation of the total\<close>











text \<open>
  The rows of a key column that is text throughout are all in some group. A row whose key
  is null is in none, so a frame with such a row, which \<open>load_data\<close> never makes, has
  group sums that leave that row's cost out.
\<close>

lemma groupby_sum_drops_null_key:
  "groupby_sum ''Project''
     \<lparr>columns = [''Project'', ''MonthlyCostUSD''],
      rows = [[Str ''Web'', Num 10], [Null, Num 5]]\<rparr> = [(''Web'', 10)]"
  by code_simp












section \<open>Group-by-sum: order of the groups\<close>


lemma mset_sort_values [simp]: "mset (sort_values_desc t) = mset t"
  by (simp add: sort_values_desc_def)

lemma set_sort_values [simp]: "set (sort_values_desc t) = set t"
  by (simp add: sort_values_desc_def)













end
